theory Spec2Isabelle
  imports Complex_Main "HOL-Library.Char_ord" "HOL-Library.List_Lexorder"
begin

section \<open>Values shared by the pipeline stages\<close>

text \<open>
  The exceptions the shared pipeline code can raise, one constructor per cause:
  \<^item> \<open>EmptyRange\<close>: the \<open>ValueError\<close> of \<open>random.randint(a, b)\<close> with \<open>b < a\<close>;
  \<^item> \<open>EmptySequence\<close>: the \<open>IndexError\<close> of \<open>random.choice\<close> on an empty sequence;
  \<^item> \<open>UnparseableDate\<close>: the \<open>ValueError\<close> of \<open>pd.to_datetime\<close> on a string it cannot parse;
  \<^item> \<open>TableAlreadyExists\<close>: the \<open>ValueError\<close> of \<open>DataFrame.to_sql\<close> under \<open>if_exists="fail"\<close>;
  \<^item> \<open>ZeroChunksize\<close>: the \<open>ValueError\<close> of \<open>DataFrame.to_sql\<close> for \<open>chunksize=0\<close>.
\<close>

datatype error = EmptyRange | EmptySequence | UnparseableDate | TableAlreadyExists | ZeroChunksize

text \<open>
  Python floats are modelled by the real numbers they denote (finite values only), with
  exact arithmetic; a missing value (\<open>NaN\<close>, \<open>None\<close>, \<open>NaT\<close>) is \<open>None\<close>.
  \<open>Series.round(2)\<close> rounds the value scaled by 100 to the nearest integer, ties to even.
\<close>

definition rint :: "real \<Rightarrow> int" where
  "rint x =
     (let f = \<lfloor>x\<rfloor> in
      if x - of_int f < 1 / 2 then f
      else if x - of_int f > 1 / 2 then f + 1
      else if even f then f else f + 1)"

definition round2 :: "real \<Rightarrow> real" where
  "round2 x = of_int (rint (x * 100)) / 100"

subsection \<open>String formatting\<close>

definition digit_char :: "nat \<Rightarrow> char" where
  "digit_char d = char_of (48 + d)"

fun digits :: "nat \<Rightarrow> string" where
  "digits n = (if n < 10 then [digit_char n] else digits (n div 10) @ [digit_char (n mod 10)])"

declare digits.simps [simp del]

text \<open>\<open>str(i)\<close> for an integer.\<close>

definition str_int :: "int \<Rightarrow> string" where
  "str_int i = (if i < 0 then CHR ''-'' # digits (nat (- i)) else digits (nat i))"

text \<open>The format specification \<open>{i:0wd}\<close>: the sign, then zeros up to the width \<open>w\<close>.\<close>

definition zfill :: "nat \<Rightarrow> string \<Rightarrow> string" where
  "zfill w s = replicate (w - length s) CHR ''0'' @ s"

definition fmt_d :: "nat \<Rightarrow> int \<Rightarrow> string" where
  "fmt_d w i =
     (if i < 0 then CHR ''-'' # zfill (w - 1) (digits (nat (- i))) else zfill w (digits (nat i)))"

subsection \<open>Dates\<close>

text \<open>A \<open>datetime\<close> value by its civil fields, as \<open>datetime(2023, 1, 1)\<close> builds it.\<close>

datatype datetime =
  Datetime (dt_year: int) (dt_month: int) (dt_day: int) (dt_hour: int) (dt_minute: int) (dt_second: int)

definition is_leap :: "int \<Rightarrow> bool" where
  "is_leap y = (y mod 4 = 0 \<and> (y mod 100 \<noteq> 0 \<or> y mod 400 = 0))"

definition days_in_month :: "int \<Rightarrow> int \<Rightarrow> int" where
  "days_in_month y m =
     (if m = 2 then (if is_leap y then 29 else 28)
      else if m = 4 \<or> m = 6 \<or> m = 9 \<or> m = 11 then 30 else 31)"

definition next_day :: "datetime \<Rightarrow> datetime" where
  "next_day t =
     (case t of Datetime y m d hh mm ss \<Rightarrow>
        if d < days_in_month y m then Datetime y m (d + 1) hh mm ss
        else if m < 12 then Datetime y (m + 1) 1 hh mm ss
        else Datetime (y + 1) 1 1 hh mm ss)"

text \<open>\<open>t + timedelta(days=k)\<close> for \<open>k \<ge> 0\<close>.\<close>

definition add_days :: "datetime \<Rightarrow> nat \<Rightarrow> datetime" where
  "add_days t k = (next_day ^^ k) t"

text \<open>\<open>t.strftime("%Y-%m-%d %H:%M:%S")\<close>.\<close>

definition strftime :: "datetime \<Rightarrow> string" where
  "strftime t =
     fmt_d 4 (dt_year t) @ ''-'' @ fmt_d 2 (dt_month t) @ ''-'' @ fmt_d 2 (dt_day t) @ '' '' @
     fmt_d 2 (dt_hour t) @ '':'' @ fmt_d 2 (dt_minute t) @ '':'' @ fmt_d 2 (dt_second t)"

text \<open>
  The day of the week, Monday = 0, from the proleptic Gregorian ordinal of the date
  (the number of days since 0001-01-01, which was a Monday, plus one).
\<close>

definition days_before_year :: "int \<Rightarrow> int" where
  "days_before_year y = (y - 1) * 365 + (y - 1) div 4 - (y - 1) div 100 + (y - 1) div 400"

definition days_before_month :: "int \<Rightarrow> int \<Rightarrow> int" where
  "days_before_month y m = sum_list (map (days_in_month y) [1..m - 1])"

definition toordinal :: "datetime \<Rightarrow> int" where
  "toordinal t = days_before_year (dt_year t) + days_before_month (dt_year t) (dt_month t) + dt_day t"

definition dayofweek :: "datetime \<Rightarrow> int" where
  "dayofweek t = (toordinal t + 6) mod 7"

definition day_name :: "datetime \<Rightarrow> string" where
  "day_name t =
     [''Monday'', ''Tuesday'', ''Wednesday'', ''Thursday'', ''Friday'', ''Saturday'', ''Sunday'']
       ! nat (dayofweek t)"


section \<open>Data model\<close>

text \<open>
  The content of the column \<open>transaction_date\<close>: strings as they are read from a file,
  timestamps once \<open>pd.to_datetime\<close> has converted the column.
\<close>

datatype datecell = DateStr string | Stamp datetime

datatype segment = low_value | medium_value | high_value

text \<open>
  One row of a DataFrame, by column. The first fourteen columns are the ones the
  Generator writes; the last six are the ones the Transformer derives. A cell is
  \<open>None\<close> when it is missing (or, for a derived column, not computed yet).
\<close>

record row =
  transaction_id :: "string option"
  customer_id :: "string option"
  product_name :: "string option"
  category :: "string option"
  quantity :: "int option"
  unit_price :: "real option"
  total_amount :: "real option"
  discount_percent :: "int option"
  tax_rate :: "real option"
  payment_method :: "string option"
  status :: "string option"
  transaction_date :: "datecell option"
  shipping_country :: "string option"
  customer_email :: "string option"
  year :: "int option"
  month :: "int option"
  day_of_week :: "string option"
  is_weekend :: "bool option"
  customer_segment :: "segment option"
  estimated_profit :: "real option"

type_synonym dataframe = "row list"

section \<open>Generator\<close>

subsection \<open>The random source\<close>

text \<open>
  The state of the module \<open>random\<close> is a tape of raw draws; each call consumes the head
  of the tape and reduces it to the requested range, so that every outcome of a call is
  the outcome for some tape.
\<close>

type_synonym rng = "nat \<Rightarrow> nat"

definition next_raw :: "rng \<Rightarrow> nat \<times> rng" where
  "next_raw g = (g 0, \<lambda>i. g (Suc i))"

text \<open>\<open>random.randint(a, b)\<close>: an integer of \<open>[a, b]\<close>; \<open>ValueError\<close> on an empty range.\<close>

definition randint :: "int \<Rightarrow> int \<Rightarrow> rng \<Rightarrow> error + (int \<times> rng)" where
  "randint a b g =
     (if b < a then Inl EmptyRange
      else (case next_raw g of (r, g') \<Rightarrow> Inr (a + int r mod (b - a + 1), g')))"

text \<open>\<open>random.choice(xs)\<close>: an element of \<open>xs\<close>; \<open>IndexError\<close> on an empty sequence.\<close>

definition choice :: "'a list \<Rightarrow> rng \<Rightarrow> error + ('a \<times> rng)" where
  "choice xs g =
     (if xs = [] then Inl EmptySequence
      else (case next_raw g of (r, g') \<Rightarrow> Inr (xs ! (r mod length xs), g')))"

text \<open>
  \<open>round(random.uniform(5.0, 500.0), 2)\<close>: a multiple of \<open>0.01\<close> between \<open>5.00\<close> and
  \<open>500.00\<close>. The call never raises.
\<close>

definition uniform_price :: "rng \<Rightarrow> error + (real \<times> rng)" where
  "uniform_price g = (case next_raw g of (r, g') \<Rightarrow> Inr (of_int (500 + int r mod 49501) / 100, g'))"

text \<open>Applying a function to the value a draw returns.\<close>

definition map_draw :: "('a \<Rightarrow> 'b) \<Rightarrow> error + ('a \<times> rng) \<Rightarrow> error + ('b \<times> rng)" where
  "map_draw f d = (case d of Inl e \<Rightarrow> Inl e | Inr (x, g') \<Rightarrow> Inr (f x, g'))"

text \<open>
  The list comprehension \<open>[draw() for _ in range(n)]\<close>: \<open>n\<close> draws one after the other,
  stopping at the first that raises.
\<close>

fun comprehension :: "nat \<Rightarrow> (rng \<Rightarrow> error + ('a \<times> rng)) \<Rightarrow> rng \<Rightarrow> error + ('a list \<times> rng)" where
  "comprehension 0 draw g = Inr ([], g)"
| "comprehension (Suc k) draw g =
     (case draw g of
        Inl e \<Rightarrow> Inl e
      | Inr (x, g1) \<Rightarrow>
          (case comprehension k draw g1 of
             Inl e \<Rightarrow> Inl e
           | Inr (xs, g2) \<Rightarrow> Inr (x # xs, g2)))"

text \<open>Sequencing of the column computations: the first exception ends the function.\<close>

definition then_column ::
  "error + ('a list \<times> rng) \<Rightarrow> ('a list \<Rightarrow> rng \<Rightarrow> error + 'b) \<Rightarrow> error + 'b" where
  "then_column c k = (case c of Inl e \<Rightarrow> Inl e | Inr (xs, g) \<Rightarrow> k xs g)"

subsection \<open>The generated table\<close>

definition categories :: "string list" where
  "categories = [''Electronics'', ''Clothing'', ''Books'', ''Home & Garden'', ''Sports'', ''Toys'']"

definition statuses :: "string list" where
  "statuses = [''completed'', ''pending'', ''cancelled'', ''refunded'']"

definition payment_methods :: "string list" where
  "payment_methods = [''credit_card'', ''debit_card'', ''paypal'', ''crypto'']"

definition countries :: "string list" where
  "countries = [''USA'', ''Canada'', ''UK'', ''Germany'', ''France'', ''Australia'']"

definition start_date :: datetime where
  "start_date = Datetime 2023 1 1 0 0 0"

text \<open>
  The expression assigned to \<open>df["total_amount"]\<close>, row by row; a missing operand gives
  a missing result, as in pandas.
\<close>

definition total_amount_formula :: "row \<Rightarrow> real option" where
  "total_amount_formula r =
     (case (quantity r, unit_price r, discount_percent r, tax_rate r) of
        (Some q, Some p, Some d, Some t) \<Rightarrow>
          Some (round2 (of_int q * p * (1 - of_int d / 100) * (1 + t)))
      | _ \<Rightarrow> None)"

text \<open>
  \<open>pd.DataFrame(data)\<close> for the dictionary of fourteen columns: row \<open>i\<close> takes the
  \<open>i\<close>-th entry of every column.
\<close>

definition DataFrame ::
  "string list \<Rightarrow> string list \<Rightarrow> string list \<Rightarrow> string list \<Rightarrow> int list \<Rightarrow> real list \<Rightarrow>
   real list \<Rightarrow> int list \<Rightarrow> real list \<Rightarrow> string list \<Rightarrow> string list \<Rightarrow> string list \<Rightarrow>
   string list \<Rightarrow> string list \<Rightarrow> dataframe" where
  "DataFrame tid cid pname cat qty price amount disc tax pay st date country email =
     map (\<lambda>i.
       \<lparr> transaction_id = Some (tid ! i), customer_id = Some (cid ! i),
         product_name = Some (pname ! i), category = Some (cat ! i),
         quantity = Some (qty ! i), unit_price = Some (price ! i),
         total_amount = Some (amount ! i), discount_percent = Some (disc ! i),
         tax_rate = Some (tax ! i), payment_method = Some (pay ! i),
         status = Some (st ! i), transaction_date = Some (DateStr (date ! i)),
         shipping_country = Some (country ! i), customer_email = Some (email ! i),
         year = None, month = None, day_of_week = None, is_weekend = None,
         customer_segment = None, estimated_profit = None \<rparr>)
       [0..<length tid]"

text \<open>
  \<open>generate_sample_data(num_rows)\<close> with no output path. \<open>range(num_rows)\<close> and
  \<open>[x] * num_rows\<close> are empty for \<open>num_rows \<le> 0\<close>. The columns are built in the order of
  the dictionary literal, each consuming the random source after the one before.
\<close>

definition generate_sample_data :: "rng \<Rightarrow> int \<Rightarrow> error + dataframe" where
  "generate_sample_data g0 num_rows =
     (let n = nat num_rows;
          tid = map (\<lambda>i. ''TXN'' @ fmt_d 8 (int i)) [0..<n]
      in
      then_column (comprehension n
          (\<lambda>g. map_draw (\<lambda>x. ''CUST'' @ fmt_d 6 x) (randint 1 (num_rows div 10) g)) g0)
        (\<lambda>cid g1.
      then_column (comprehension n
          (\<lambda>g. map_draw (\<lambda>x. ''Product_'' @ str_int x) (randint 1 1000 g)) g1)
        (\<lambda>pname g2.
      then_column (comprehension n (choice categories) g2)
        (\<lambda>cat g3.
      then_column (comprehension n (randint 1 10) g3)
        (\<lambda>qty g4.
      then_column (comprehension n uniform_price g4)
        (\<lambda>price g5.
      then_column (comprehension n (choice [0, 5, 10, 15, 20]) g5)
        (\<lambda>disc g6.
      then_column (comprehension n (choice payment_methods) g6)
        (\<lambda>pay g7.
      then_column (comprehension n (choice statuses) g7)
        (\<lambda>st g8.
      then_column (comprehension n
          (\<lambda>g. map_draw (\<lambda>x. strftime (add_days start_date (nat x))) (randint 0 700 g)) g8)
        (\<lambda>date g9.
      then_column (comprehension n (choice countries) g9)
        (\<lambda>country g10.
      then_column (comprehension n
          (\<lambda>g. map_draw (\<lambda>x. ''customer'' @ str_int x @ ''@example.com'')
                  (randint 1 (num_rows div 10) g)) g10)
        (\<lambda>email g11.
           Inr (map (\<lambda>r. r\<lparr>total_amount := total_amount_formula r\<rparr>)
                  (DataFrame tid cid pname cat qty price (replicate n 0) disc
                     (replicate n (8 / 100)) pay st date country email))))))))))))))"


section \<open>Transformer\<close>

text \<open>
  \<open>df.drop_duplicates(subset=["transaction_id"])\<close>: a row is kept when no earlier row has
  its \<open>transaction_id\<close>; two missing identifiers count as equal. \<open>seen\<close> holds the
  identifiers of the rows passed so far.
\<close>

fun drop_duplicates :: "string option list \<Rightarrow> dataframe \<Rightarrow> dataframe" where
  "drop_duplicates seen [] = []"
| "drop_duplicates seen (r # rs) =
     (if transaction_id r \<in> set seen then drop_duplicates seen rs
      else r # drop_duplicates (transaction_id r # seen) rs)"

text \<open>\<open>df.dropna(subset=["transaction_id", "customer_id", "total_amount"])\<close>.\<close>

definition dropna :: "dataframe \<Rightarrow> dataframe" where
  "dropna df =
     filter (\<lambda>r. \<not> Option.is_none (transaction_id r) \<and> \<not> Option.is_none (customer_id r) \<and>
                 \<not> Option.is_none (total_amount r)) df"

text \<open>The comparison \<open>column > 0\<close>; it is false on a missing value.\<close>

definition gt_zero :: "'a::{zero, ord} option \<Rightarrow> bool" where
  "gt_zero c = (case c of None \<Rightarrow> False | Some x \<Rightarrow> 0 < x)"

text \<open>
  \<open>pd.to_datetime\<close> is a function of the library: what it makes of a string is a
  parameter of the model. It raises on a string it cannot parse, and the whole conversion with it.
  Timestamps and missing values pass unchanged.
\<close>

datatype parsed = Unparseable | NaT | Parsed datetime

definition unparseable :: "(string \<Rightarrow> parsed) \<Rightarrow> datecell option \<Rightarrow> bool" where
  "unparseable parse c = (case c of Some (DateStr s) \<Rightarrow> parse s = Unparseable | _ \<Rightarrow> False)"

definition convert_cell :: "(string \<Rightarrow> parsed) \<Rightarrow> datecell option \<Rightarrow> datecell option" where
  "convert_cell parse c =
     (case c of
        None \<Rightarrow> None
      | Some (Stamp t) \<Rightarrow> Some (Stamp t)
      | Some (DateStr s) \<Rightarrow> (case parse s of Parsed t \<Rightarrow> Some (Stamp t) | _ \<Rightarrow> None))"

definition to_datetime :: "(string \<Rightarrow> parsed) \<Rightarrow> dataframe \<Rightarrow> error + dataframe" where
  "to_datetime parse df =
     (if list_ex (\<lambda>r. unparseable parse (transaction_date r)) df then Inl UnparseableDate
      else Inr (map (\<lambda>r. r\<lparr>transaction_date := convert_cell parse (transaction_date r)\<rparr>) df))"

text \<open>The \<open>.dt\<close> accessor reads the timestamp of a converted cell.\<close>

definition dt :: "row \<Rightarrow> datetime option" where
  "dt r = (case transaction_date r of Some (Stamp t) \<Rightarrow> Some t | _ \<Rightarrow> None)"

text \<open>
  \<open>pd.cut(x, bins=[0, 50, 200, inf], labels=[low_value, medium_value, high_value])\<close>:
  the intervals are open on the left and closed on the right; a value in none of them
  (or missing) gets no label.
\<close>

definition cut :: "real option \<Rightarrow> segment option" where
  "cut c =
     (case c of
        None \<Rightarrow> None
      | Some x \<Rightarrow>
          if 0 < x \<and> x \<le> 50 then Some low_value
          else if 50 < x \<and> x \<le> 200 then Some medium_value
          else if 200 < x then Some high_value
          else None)"

text \<open>The six derived columns, row by row.\<close>

definition enrich :: "row \<Rightarrow> row" where
  "enrich r =
     r\<lparr> year := map_option dt_year (dt r),
        month := map_option dt_month (dt r),
        day_of_week := map_option day_name (dt r),
        is_weekend := Some (case dt r of None \<Rightarrow> False | Some t \<Rightarrow> 5 \<le> dayofweek t),
        customer_segment := cut (total_amount r),
        estimated_profit := map_option (\<lambda>x. round2 (x * (3 / 10))) (total_amount r) \<rparr>"

definition transform_data :: "(string \<Rightarrow> parsed) \<Rightarrow> dataframe \<Rightarrow> error + dataframe" where
  "transform_data parse df0 =
     (let df1 = drop_duplicates [] df0;
          df2 = dropna df1;
          df3 = filter (\<lambda>r. gt_zero (total_amount r)) df2;
          df4 = filter (\<lambda>r. gt_zero (quantity r)) df3
      in case to_datetime parse df4 of
           Inl e \<Rightarrow> Inl e
         | Inr df5 \<Rightarrow> Inr (map enrich df5))"

section \<open>Aggregator\<close>








section \<open>Loader\<close>









section \<open>Sample data\<close>

text \<open>A row as the Extractor reads it, with the columns the examples vary.\<close>

definition sample_row :: "string \<Rightarrow> string \<Rightarrow> int \<Rightarrow> real \<Rightarrow> string \<Rightarrow> row" where
  "sample_row tid cat qty amount date =
     \<lparr> transaction_id = Some tid, customer_id = Some ''CUST000001'',
       product_name = Some ''Product_1'', category = Some cat,
       quantity = Some qty, unit_price = Some 10,
       total_amount = Some amount, discount_percent = Some 0,
       tax_rate = Some (8 / 100), payment_method = Some ''paypal'',
       status = Some ''completed'', transaction_date = Some (DateStr date),
       shipping_country = Some ''UK'', customer_email = Some ''customer1@example.com'',
       year = None, month = None, day_of_week = None, is_weekend = None,
       customer_segment = None, estimated_profit = None \<rparr>"

text \<open>A parser that knows two dates and nothing else.\<close>

definition sample_parse :: "string \<Rightarrow> parsed" where
  "sample_parse s =
     (if s = ''2023-01-07 00:00:00'' then Parsed (Datetime 2023 1 7 0 0 0)
      else if s = ''2023-01-09 00:00:00'' then Parsed (Datetime 2023 1 9 0 0 0)
      else Unparseable)"


definition sample_tape :: rng where
  "sample_tape i = i * 7919"

text \<open>Five rows as read from a file: a repeated identifier, a negative amount, a zero quantity.\<close>

definition dirty_rows :: dataframe where
  "dirty_rows =
     [sample_row ''TXN00000001'' ''Books'' 1 50 ''2023-01-07 00:00:00'',
      sample_row ''TXN00000002'' ''Toys'' 2 (5001 / 100) ''2023-01-09 00:00:00'',
      sample_row ''TXN00000001'' ''Toys'' 1 200 ''2023-01-09 00:00:00'',
      sample_row ''TXN00000003'' ''Toys'' 1 (- 3) ''2023-01-09 00:00:00'',
      sample_row ''TXN00000004'' ''Toys'' 0 3 ''2023-01-09 00:00:00'']"

text \<open>Four rows whose amounts sit on and just above the edges of the segments.\<close>

definition boundary_rows :: dataframe where
  "boundary_rows =
     [sample_row ''TXN00000001'' ''Books'' 1 50 ''2023-01-07 00:00:00'',
      sample_row ''TXN00000002'' ''Books'' 1 (5001 / 100) ''2023-01-07 00:00:00'',
      sample_row ''TXN00000003'' ''Books'' 1 200 ''2023-01-09 00:00:00'',
      sample_row ''TXN00000004'' ''Books'' 1 (20001 / 100) ''2023-01-09 00:00:00'']"

text \<open>Two sales of electronics and one of books.\<close>

definition sales_rows :: dataframe where
  "sales_rows =
     [sample_row ''TXN00000001'' ''Electronics'' 1 100 ''2023-01-07 00:00:00'',
      sample_row ''TXN00000002'' ''Books'' 2 20 ''2023-01-07 00:00:00'',
      sample_row ''TXN00000003'' ''Electronics'' 3 300 ''2023-01-09 00:00:00'']"


section \<open>Notions used in the proofs\<close>


text \<open>The rows left by the four cleaning steps of \<open>transform_data\<close>.\<close>

definition surviving :: "dataframe \<Rightarrow> dataframe" where
  "surviving df =
     filter (\<lambda>r. gt_zero (quantity r))
       (filter (\<lambda>r. gt_zero (total_amount r)) (dropna (drop_duplicates [] df)))"

text \<open>The conversion of the date of one row.\<close>

definition stamp_row :: "(string \<Rightarrow> parsed) \<Rightarrow> row \<Rightarrow> row" where
  "stamp_row parse r = r\<lparr>transaction_date := convert_cell parse (transaction_date r)\<rparr>"

section \<open>The Generator: rows, identifiers, amounts, errors\<close>

subsection \<open>Draws and columns\<close>



lemma comprehension_fails:
  assumes "\<And>g. draw g = Inl e" and "0 < n"
  shows "comprehension n draw g = Inl e"
  using assms by (cases n) auto









subsection \<open>The identifiers are pairwise distinct\<close>








lemma DataFrame_length [simp]:
  "length (DataFrame tid cid pname cat qty price amount disc tax pay st date country email) = length tid"
  by (simp add: DataFrame_def)




text \<open>
  Claim C1 asks for \<open>n\<close> rows with pairwise distinct identifiers for every positive \<open>n\<close>.
  For five rows the pool of customers, \<open>5 // 10\<close>, is empty, and the first draw of a
  customer raises: no table is returned, whatever the random source.
\<close>

theorem generate_sample_data_five_rows:
  "generate_sample_data g0 5 = Inl EmptyRange"
proof -
  have "comprehension (nat 5)
          (\<lambda>g. map_draw (\<lambda>x. ''CUST'' @ fmt_d 6 x) (randint 1 (5 div 10) g)) g0 = Inl EmptyRange"
    by (intro comprehension_fails) (simp_all add: randint_def map_draw_def)
  then show ?thesis
    by (simp add: generate_sample_data_def Let_def then_column_def)
qed



text \<open>
  Claim C7 asks for an \<open>InvalidArgument\<close> error when \<open>n \<le> 0\<close>. The Generator does not
  look at the sign of \<open>n\<close>: for \<open>n = 0\<close> it draws nothing and returns the empty table.
\<close>

theorem generate_sample_data_zero_rows:
  "generate_sample_data sample_tape 0 = Inr []"
  by (simp add: generate_sample_data_def then_column_def DataFrame_def)

text \<open>
  Claim C7, amended: for every \<open>n \<le> 0\<close> the Generator raises no error and returns the
  empty table.
\<close>

theorem generate_sample_data_nonpositive:
  assumes "num_rows \<le> 0"
  shows "generate_sample_data g0 num_rows = Inr []"
  using assms by (simp add: generate_sample_data_def then_column_def DataFrame_def)

theorem generate_sample_data_nonpositive_witness:
  "generate_sample_data sample_tape (- 3) = Inr []"
  using generate_sample_data_nonpositive [of "- 3" sample_tape] by simp

text \<open>
  Claim C10: for \<open>1 \<le> n \<le> 9\<close> the pool of customers, \<open>n // 10\<close>, is empty; the first
  draw of a \<open>customer_id\<close> is over the empty range \<open>[1, 0]\<close> and raises, so the Generator
  returns no table.
\<close>

theorem generate_sample_data_below_ten:
  assumes "1 \<le> num_rows" and "num_rows \<le> 9"
  shows "generate_sample_data g0 num_rows = Inl EmptyRange"
proof -
  have pool: "num_rows div 10 = 0" using assms by simp
  have "comprehension (nat num_rows)
          (\<lambda>g. map_draw (\<lambda>x. ''CUST'' @ fmt_d 6 x) (randint 1 (num_rows div 10) g)) g0 = Inl EmptyRange"
    using assms by (intro comprehension_fails) (simp_all add: pool randint_def map_draw_def)
  then show ?thesis
    by (simp add: generate_sample_data_def Let_def then_column_def)
qed

theorem generate_sample_data_below_ten_witness:
  "generate_sample_data sample_tape 9 = Inl EmptyRange"
  using generate_sample_data_below_ten [of 9 sample_tape] by simp


section \<open>The Transformer: what survives, segments, a second run\<close>

subsection \<open>Removing duplicates\<close>

lemma drop_duplicates_length: "length (drop_duplicates seen rs) \<le> length rs"
  by (induction rs arbitrary: seen) (auto simp: le_SucI)

lemma drop_duplicates_unseen:
  "r \<in> set (drop_duplicates seen rs) \<Longrightarrow> transaction_id r \<notin> set seen"
proof (induction rs arbitrary: seen)
  case Nil
  then show ?case by simp
next
  case (Cons a rs)
  show ?case
  proof (cases "transaction_id a \<in> set seen")
    case True
    with Cons show ?thesis by simp
  next
    case False
    with Cons.prems have "r = a \<or> r \<in> set (drop_duplicates (transaction_id a # seen) rs)"
      by simp
    then show ?thesis
      using False Cons.IH [of "transaction_id a # seen"] by auto
  qed
qed

lemma drop_duplicates_distinct: "distinct (map transaction_id (drop_duplicates seen rs))"
  by (induction rs arbitrary: seen) (auto dest: drop_duplicates_unseen)

lemma drop_duplicates_id:
  "distinct (map transaction_id rs) \<Longrightarrow> set (map transaction_id rs) \<inter> set seen = {} \<Longrightarrow>
   drop_duplicates seen rs = rs"
  by (induction rs arbitrary: seen) auto

subsection \<open>The surviving rows\<close>

lemma surviving_length: "length (surviving df) \<le> length df"
  unfolding surviving_def dropna_def
  by (meson drop_duplicates_length length_filter_le order_trans)

lemma surviving_distinct: "distinct (map transaction_id (surviving df))"
  unfolding surviving_def dropna_def
  by (intro distinct_map_filter drop_duplicates_distinct)

lemma surviving_rows:
  assumes "r \<in> set (surviving df)"
  shows "gt_zero (quantity r)" and "gt_zero (total_amount r)" and "transaction_id r \<noteq> None"
    and "customer_id r \<noteq> None"
  using assms by (auto simp: surviving_def dropna_def Option.is_none_def)

lemma gt_zero_Some: "gt_zero c \<longleftrightarrow> (\<exists>x. c = Some x \<and> 0 < x)"
  by (cases c) (simp_all add: gt_zero_def)

text \<open>
  The Transformer returns exactly when every surviving date can be parsed, and then it
  returns the surviving rows, each with its date converted and its columns derived.
\<close>

lemma transform_data_Inr:
  "transform_data parse df = Inr out \<longleftrightarrow>
     \<not> list_ex (\<lambda>r. unparseable parse (transaction_date r)) (surviving df) \<and>
     out = map (\<lambda>r. enrich (stamp_row parse r)) (surviving df)"
  by (auto simp: transform_data_def to_datetime_def surviving_def stamp_row_def Let_def o_def)

lemma enrich_fields [simp]:
  "transaction_id (enrich r) = transaction_id r"
  "customer_id (enrich r) = customer_id r"
  "category (enrich r) = category r"
  "quantity (enrich r) = quantity r"
  "total_amount (enrich r) = total_amount r"
  "transaction_date (enrich r) = transaction_date r"
  "customer_segment (enrich r) = cut (total_amount r)"
  by (simp_all add: enrich_def)

lemma stamp_row_fields [simp]:
  "transaction_id (stamp_row parse r) = transaction_id r"
  "customer_id (stamp_row parse r) = customer_id r"
  "category (stamp_row parse r) = category r"
  "quantity (stamp_row parse r) = quantity r"
  "total_amount (stamp_row parse r) = total_amount r"
  "transaction_date (stamp_row parse r) = convert_cell parse (transaction_date r)"
  by (simp_all add: stamp_row_def)

lemma transform_data_rows:
  assumes "transform_data parse df = Inr out" and "r \<in> set out"
  shows "gt_zero (quantity r)" and "gt_zero (total_amount r)" and "transaction_id r \<noteq> None"
    and "customer_id r \<noteq> None"
proof -
  from assms obtain r0 where r0: "r0 \<in> set (surviving df)" and r: "r = enrich (stamp_row parse r0)"
    by (auto simp: transform_data_Inr)
  show "gt_zero (quantity r)" "gt_zero (total_amount r)" "transaction_id r \<noteq> None"
    "customer_id r \<noteq> None"
    using surviving_rows [OF r0] by (simp_all add: r)
qed

lemma transform_data_distinct:
  assumes "transform_data parse df = Inr out"
  shows "distinct (map transaction_id out)"
proof -
  from assms have "map transaction_id out = map transaction_id (surviving df)"
    by (simp add: transform_data_Inr)
  then show ?thesis by (simp only: surviving_distinct)
qed

lemmas sample_defs = sample_row_def sample_parse_def surviving_def dropna_def gt_zero_def
  unparseable_def stamp_row_def

text \<open>
  Claim C3: whatever the input, a table the Transformer returns has no row with
  \<open>total_amount \<le> 0\<close> and no row with \<open>quantity \<le> 0\<close> (both values are present and
  positive), no two rows with the same \<open>transaction_id\<close>, and at most as many rows as
  the input.
\<close>

theorem transform_data_output:
  assumes "transform_data parse df = Inr out"
  shows "(\<forall>r \<in> set out. (\<exists>a. total_amount r = Some a \<and> 0 < a) \<and> (\<exists>q. quantity r = Some q \<and> 0 < q)) \<and>
         distinct (map transaction_id out) \<and> length out \<le> length df"
proof -
  have "\<forall>r \<in> set out. gt_zero (total_amount r) \<and> gt_zero (quantity r)"
    using transform_data_rows [OF assms] by blast
  then have "\<forall>r \<in> set out. (\<exists>a. total_amount r = Some a \<and> 0 < a) \<and> (\<exists>q. quantity r = Some q \<and> 0 < q)"
    by (simp add: gt_zero_Some)
  moreover have "distinct (map transaction_id out)"
    by (rule transform_data_distinct [OF assms])
  moreover have "length out \<le> length df"
    using assms by (simp add: transform_data_Inr surviving_length)
  ultimately show ?thesis by blast
qed

theorem transform_data_output_witness:
  "\<exists>out. transform_data sample_parse dirty_rows = Inr out \<and>
         map transaction_id out = [Some ''TXN00000001'', Some ''TXN00000002''] \<and>
         list_all (\<lambda>r. (\<exists>a. total_amount r = Some a \<and> 0 < a) \<and> (\<exists>q. quantity r = Some q \<and> 0 < q)) out \<and>
         distinct (map transaction_id out) \<and> length out \<le> length dirty_rows"
proof -
  let ?out = "map (\<lambda>r. enrich (stamp_row sample_parse r)) (surviving dirty_rows)"
  have ev: "transform_data sample_parse dirty_rows = Inr ?out"
    by (simp add: transform_data_Inr dirty_rows_def sample_defs)
  have ids: "map transaction_id ?out = [Some ''TXN00000001'', Some ''TXN00000002'']"
    by (simp add: dirty_rows_def sample_defs)
  have "list_all (\<lambda>r. (\<exists>a. total_amount r = Some a \<and> 0 < a) \<and> (\<exists>q. quantity r = Some q \<and> 0 < q)) ?out"
    and "distinct (map transaction_id ?out)" and "length ?out \<le> length dirty_rows"
    using transform_data_output [OF ev] unfolding list_all_iff by blast+
  with ev ids show ?thesis by (intro exI [of _ ?out] conjI)
qed

text \<open>
  Claim C4: every row the Transformer returns has a positive \<open>total_amount\<close>, and its
  \<open>customer_segment\<close> is \<open>low_value\<close> up to and including 50, \<open>medium_value\<close> above 50 up
  to and including 200, and \<open>high_value\<close> above 200. The witness runs the four amounts
  50.00, 50.01, 200.00 and 200.01.
\<close>

theorem transform_data_segment:
  assumes "transform_data parse df = Inr out" and "r \<in> set out"
  shows "\<exists>a. total_amount r = Some a \<and> 0 < a \<and>
             customer_segment r =
               Some (if a \<le> 50 then low_value else if a \<le> 200 then medium_value else high_value)"
proof -
  from assms obtain r0 where r0: "r0 \<in> set (surviving df)" and r: "r = enrich (stamp_row parse r0)"
    by (auto simp: transform_data_Inr)
  from surviving_rows(2) [OF r0] obtain a where a: "total_amount r0 = Some a" "0 < a"
    by (auto simp: gt_zero_Some)
  then show ?thesis by (simp add: r cut_def)
qed

theorem transform_data_segment_witness:
  "\<exists>out. transform_data sample_parse boundary_rows = Inr out \<and>
         map total_amount out = [Some 50, Some (5001 / 100), Some 200, Some (20001 / 100)] \<and>
         map customer_segment out =
           [Some low_value, Some medium_value, Some medium_value, Some high_value]"
proof -
  let ?out = "map (\<lambda>r. enrich (stamp_row sample_parse r)) (surviving boundary_rows)"
  have ev: "transform_data sample_parse boundary_rows = Inr ?out"
    by (simp add: transform_data_Inr boundary_rows_def sample_defs)
  have amounts: "map total_amount ?out = [Some 50, Some (5001 / 100), Some 200, Some (20001 / 100)]"
    by (simp add: boundary_rows_def sample_defs)
  have seg: "customer_segment r =
      Some (if the (total_amount r) \<le> 50 then low_value
            else if the (total_amount r) \<le> 200 then medium_value else high_value)"
    if "r \<in> set ?out" for r
    using transform_data_segment [OF ev that] by auto
  have "map customer_segment ?out =
      map (\<lambda>r. Some (if the (total_amount r) \<le> 50 then low_value
                     else if the (total_amount r) \<le> 200 then medium_value else high_value)) ?out"
    by (rule map_cong [OF refl]) (rule seg)
  also have "\<dots> =
      map (\<lambda>c. Some (if the c \<le> 50 then low_value else if the c \<le> 200 then medium_value else high_value))
        (map total_amount ?out)"
    by (simp only: map_map o_def)
  also have "\<dots> = [Some low_value, Some medium_value, Some medium_value, Some high_value]"
    by (simp only: amounts) simp
  finally have segs: "map customer_segment ?out =
      [Some low_value, Some medium_value, Some medium_value, Some high_value]" .
  from ev amounts segs show ?thesis by (intro exI [of _ ?out] conjI)
qed

subsection \<open>A second run\<close>

lemma convert_cell_idem: "convert_cell parse (convert_cell parse c) = convert_cell parse c"
  by (auto simp: convert_cell_def split: option.splits datecell.splits parsed.splits)

lemma convert_cell_parseable: "\<not> unparseable parse (convert_cell parse c)"
  by (auto simp: convert_cell_def unparseable_def split: option.splits datecell.splits parsed.splits)

lemma stamp_row_enrich:
  "stamp_row parse (enrich (stamp_row parse r)) = enrich (stamp_row parse r)"
  by (simp add: stamp_row_def enrich_def dt_def convert_cell_idem)

lemma enrich_idem: "enrich (enrich r) = enrich r"
  by (simp add: enrich_def dt_def)

text \<open>
  Claim C6: the Transformer applied to a table it has returned returns that table
  unchanged, so that two runs give the record set of one run. This holds for every
  input on which the Transformer returns, the already clean ones among them.
\<close>

theorem transform_data_twice:
  assumes "transform_data parse df = Inr out"
  shows "transform_data parse out = Inr out"
proof -
  from assms have out: "out = map (\<lambda>r. enrich (stamp_row parse r)) (surviving df)"
    by (simp add: transform_data_Inr)
  have rows: "\<And>r. r \<in> set out \<Longrightarrow>
      gt_zero (quantity r) \<and> gt_zero (total_amount r) \<and> transaction_id r \<noteq> None \<and> customer_id r \<noteq> None"
    using transform_data_rows [OF assms] by blast
  have "distinct (map transaction_id out)"
    by (rule transform_data_distinct [OF assms])
  then have "drop_duplicates [] out = out"
    by (simp add: drop_duplicates_id)
  moreover have "dropna out = out"
    unfolding dropna_def using rows by (auto simp: gt_zero_Some Option.is_none_def intro!: filter_True)
  ultimately have same: "surviving out = out"
    unfolding surviving_def using rows by (simp add: filter_True)
  have "\<not> list_ex (\<lambda>r. unparseable parse (transaction_date r)) out"
    by (auto simp: out list_ex_iff convert_cell_parseable)
  moreover have "map (\<lambda>r. enrich (stamp_row parse r)) out = out"
    by (simp add: out o_def stamp_row_enrich enrich_idem)
  ultimately show ?thesis
    by (simp add: transform_data_Inr same)
qed

theorem transform_data_twice_witness:
  "\<exists>out. transform_data sample_parse sales_rows = Inr out \<and> length out = 3 \<and>
         transform_data sample_parse out = Inr out"
proof -
  let ?out = "map (\<lambda>r. enrich (stamp_row sample_parse r)) (surviving sales_rows)"
  have ev: "transform_data sample_parse sales_rows = Inr ?out"
    by (simp add: transform_data_Inr sales_rows_def sample_defs)
  have len: "length ?out = 3"
    by (simp add: sales_rows_def sample_defs)
  from transform_data_twice [OF ev] ev len show ?thesis by (intro exI [of _ ?out] conjI)
qed


section \<open>The Aggregator: one row per category\<close>









section \<open>The Loader under the policy \<open>fail\<close>\<close>








end
